theory Spec2Isabelle
  imports Complex_Main
begin

section \<open>The history downsampler of background-graph-entities.ts\<close>

text \<open>
  The card's \<^verbatim>\<open>_downsampleHistory(states, hours, pointsPerHour)\<close> turns the state
  changes of an entity into one time-weighted average per bucket.

  JavaScript numbers are modelled by exact rationals: rounding, NaN and the infinities
  of IEEE doubles are outside the model. A \<^verbatim>\<open>Date\<close> is its time value, a whole number of
  milliseconds since the epoch; \<^verbatim>\<open>new Date(x)\<close> cuts the fraction of \<open>x\<close> off, towards
  zero; time values beyond the range of a \<^verbatim>\<open>Date\<close> (8.64e15 ms either side of the epoch),
  which make an invalid date, are outside the model as well. The function reads the clock
  twice (\<^verbatim>\<open>new Date()\<close> for the virtual end point, then \<^verbatim>\<open>new Date()\<close> for
  \<^verbatim>\<open>now\<close>); both readings are parameters of the model, \<open>endpointNow\<close> and \<open>now\<close>.
\<close>

subsection \<open>Constants and data\<close>

definition MS_IN_S :: rat where
  "MS_IN_S = 1000"

definition S_IN_MIN :: rat where
  "S_IN_MIN = 60"

definition MIN_IN_H :: rat where
  "MIN_IN_H = 60"

definition MS_IN_H :: rat where
  "MS_IN_H = MIN_IN_H * S_IN_MIN * MS_IN_S"

type_synonym Date = int

record point =
  timestamp :: Date
  val :: rat

definition getTime :: "Date \<Rightarrow> rat" where
  "getTime d = of_int d"

definition newDate :: "rat \<Rightarrow> Date" where
  \<comment> \<open>\<^verbatim>\<open>new Date(tv)\<close>: the time value is clipped to an integer, towards zero.\<close>
  "newDate tv = (if 0 \<le> tv then \<lfloor>tv\<rfloor> else \<lceil>tv\<rceil>)"

subsection \<open>The inner loop over consecutive states\<close>

text \<open>
  \<^verbatim>\<open>for (k = 0; k < statesWithEndpoints.length - 1; k++)\<close>: every state with its
  successor; the accumulator is \<open>(weightedSum, totalDurationInBucket)\<close>.
\<close>

fun stateLoop :: "rat \<Rightarrow> rat \<Rightarrow> point list \<Rightarrow> rat \<times> rat \<Rightarrow> rat \<times> rat" where
  "stateLoop bucketStartTime bucketEndTime (currentState # nextState # rest)
       (weightedSum, totalDurationInBucket) =
     (let start = max (getTime (timestamp currentState)) bucketStartTime;
          end' = min (getTime (timestamp nextState)) bucketEndTime
      in stateLoop bucketStartTime bucketEndTime (nextState # rest)
           (if start < end'
            then (weightedSum + val currentState * (end' - start),
                  totalDurationInBucket + (end' - start))
            else (weightedSum, totalDurationInBucket)))"
| "stateLoop bucketStartTime bucketEndTime rest acc = acc"

definition carryForward :: "point list \<Rightarrow> rat \<Rightarrow> rat \<Rightarrow> rat" where
  \<comment> \<open>\<^verbatim>\<open>states.filter((s) => s.timestamp.getTime() <= bucketEndTime).pop()?.value ?? lastValue\<close>\<close>
  "carryForward states bucketEndTime lastValue =
     (let kept = filter (\<lambda>s. getTime (timestamp s) \<le> bucketEndTime) states
      in if kept = [] then lastValue else val (last kept))"

subsection \<open>One bucket, and the loop over the buckets\<close>

definition bucketStart :: "Date \<Rightarrow> rat \<Rightarrow> nat \<Rightarrow> rat" where
  "bucketStart startTime interval i = getTime startTime + of_nat i * interval"

definition bucketEnd :: "Date \<Rightarrow> rat \<Rightarrow> nat \<Rightarrow> rat" where
  "bucketEnd startTime interval i = bucketStart startTime interval i + interval"

definition bucketSums :: "point list \<Rightarrow> Date \<Rightarrow> rat \<Rightarrow> nat \<Rightarrow> rat \<times> rat" where
  "bucketSums statesWithEndpoints startTime interval i =
     stateLoop (bucketStart startTime interval i) (bucketEnd startTime interval i)
       statesWithEndpoints (0, 0)"

definition bucketBody :: "point list \<Rightarrow> point list \<Rightarrow> Date \<Rightarrow> rat \<Rightarrow> nat \<Rightarrow> rat \<Rightarrow> point \<times> rat" where
  \<comment> \<open>The body of the outer loop: the point pushed and the new \<^verbatim>\<open>lastValue\<close>.\<close>
  "bucketBody statesWithEndpoints states startTime interval i lastValue =
     (let bucketTimestamp = newDate (getTime startTime + (of_nat i + 1) * interval);
          bucketEndTime = bucketEnd startTime interval i;
          weightedSum = fst (bucketSums statesWithEndpoints startTime interval i);
          totalDurationInBucket = snd (bucketSums statesWithEndpoints startTime interval i)
      in if totalDurationInBucket > 0
         then (\<lparr>timestamp = bucketTimestamp, val = weightedSum / totalDurationInBucket\<rparr>,
               carryForward states bucketEndTime lastValue)
         else (\<lparr>timestamp = bucketTimestamp, val = lastValue\<rparr>, lastValue))"

function bucketLoop ::
  "point list \<Rightarrow> point list \<Rightarrow> Date \<Rightarrow> rat \<Rightarrow> int \<Rightarrow> nat \<Rightarrow> rat \<Rightarrow> point list \<Rightarrow> point list" where
  "bucketLoop statesWithEndpoints states startTime interval numBuckets i lastValue downsampled =
     (if int i < numBuckets
      then bucketLoop statesWithEndpoints states startTime interval numBuckets (Suc i)
             (snd (bucketBody statesWithEndpoints states startTime interval i lastValue))
             (downsampled @ [fst (bucketBody statesWithEndpoints states startTime interval i lastValue)])
      else downsampled)"
  by pat_completeness auto
termination
  by (relation "measure (\<lambda>(sw, st, s, iv, n, i, lv, ds). nat (n - int i))") auto

declare bucketLoop.simps [simp del]

subsection \<open>The function\<close>

definition withEndpoint :: "Date \<Rightarrow> point list \<Rightarrow> point list" where
  \<comment> \<open>\<^verbatim>\<open>[...states, { timestamp: new Date(), value: states[states.length - 1]?.value ?? 0 }]\<close>\<close>
  "withEndpoint endpointNow states =
     states @ [\<lparr>timestamp = endpointNow, val = (if states = [] then 0 else val (last states))\<rparr>]"

definition windowStart :: "Date \<Rightarrow> rat \<Rightarrow> Date" where
  "windowStart now hours = newDate (getTime now - hours * MS_IN_H)"

definition bucketInterval :: "rat \<Rightarrow> rat" where
  "bucketInterval pointsPerHour = MS_IN_H / pointsPerHour"

definition bucketCount :: "Date \<Rightarrow> rat \<Rightarrow> rat \<Rightarrow> int" where
  "bucketCount now hours pointsPerHour =
     \<lceil>(getTime now - getTime (windowStart now hours)) / bucketInterval pointsPerHour\<rceil>"

definition downsampleHistory :: "Date \<Rightarrow> Date \<Rightarrow> point list \<Rightarrow> rat \<Rightarrow> rat \<Rightarrow> point list" where
  "downsampleHistory endpointNow now states hours pointsPerHour =
     (if pointsPerHour \<le> 0 \<or> length states = 0 then states
      else
        let statesWithEndpoints = withEndpoint endpointNow states;
            startTime = windowStart now hours;
            interval = bucketInterval pointsPerHour;
            numBuckets = bucketCount now hours pointsPerHour;
            lastValue = (if length states > 0 then val (states ! 0) else 0);
            downsampled =
              bucketLoop statesWithEndpoints states startTime interval numBuckets 0 lastValue []
        in if length states > 0
           then \<lparr>timestamp = startTime, val = val (states ! 0)\<rparr> # downsampled
           else downsampled)"

subsection \<open>What one pair of states adds to one bucket\<close>



subsection \<open>The same run with every division and every element read checked\<close>








section \<open>The card's configuration\<close>

text \<open>
  \<^verbatim>\<open>setConfig(config)\<close> throws on a configuration without entities and otherwise stores
  it, normalises the entities, drops the history and sets the refresh timer up again.
  The declarations of \<^verbatim>\<open>types.ts\<close> are not part of the source at hand; the records
  below hold the fields that \<^verbatim>\<open>setConfig\<close> and \<^verbatim>\<open>_setupUpdateInterval\<close> read.
  A thrown error is the first component of the result, the card after the call the
  second.
\<close>

datatype js_error = Error string

record EntityConfig =
  entity :: string
  graph_entity :: "string option"

datatype entityItem = EntityId string | EntityObject EntityConfig

datatype entitiesValue =
    Falsy \<comment> \<open>\<^verbatim>\<open>undefined\<close>, \<^verbatim>\<open>null\<close> or another falsy value\<close>
  | NotAnArray \<comment> \<open>a truthy value for which \<^verbatim>\<open>Array.isArray\<close> is false\<close>
  | Array "entityItem list"

record BackgroundGraphEntitiesConfig =
  entities :: entitiesValue
  update_interval :: "rat option"
  hours_to_show :: "rat option"
  points_per_hour :: "rat option"

record card =
  p_config :: "BackgroundGraphEntitiesConfig option"
  p_entities :: "EntityConfig list"
  p_history :: "(string \<times> point list) list"
  p_historyFetched :: bool
  p_timerId :: "nat option"
  windowIntervals :: "(nat \<times> rat) list"
    \<comment> \<open>the timers registered with \<^verbatim>\<open>window.setInterval\<close>: identifier and delay in ms\<close>

definition clearInterval :: "nat \<Rightarrow> (nat \<times> rat) list \<Rightarrow> (nat \<times> rat) list" where
  "clearInterval timerId timers = filter (\<lambda>t. fst t \<noteq> timerId) timers"

definition freshTimerId :: "(nat \<times> rat) list \<Rightarrow> nat" where
  \<comment> \<open>\<^verbatim>\<open>window.setInterval\<close> answers with a positive identifier not in use.\<close>
  "freshTimerId timers = Suc (fold max (map fst timers) 0)"

definition setupUpdateInterval :: "card \<Rightarrow> card" where
  "setupUpdateInterval c =
     (let c1 = (case p_timerId c of
                  None \<Rightarrow> c
                | Some timerId \<Rightarrow>
                    if timerId \<noteq> 0
                    then c\<lparr>windowIntervals := clearInterval timerId (windowIntervals c)\<rparr>
                    else c)
      in case p_config c1 of
           None \<Rightarrow> c1
         | Some config \<Rightarrow>
            (case update_interval config of
               None \<Rightarrow> c1
             | Some interval \<Rightarrow>
                 if interval \<noteq> 0
                 then c1\<lparr>p_timerId := Some (freshTimerId (windowIntervals c1)),
                         windowIntervals := windowIntervals c1 @
                           [(freshTimerId (windowIntervals c1), interval * MS_IN_S)]\<rparr>
                 else c1))"

definition normaliseEntity :: "entityItem \<Rightarrow> EntityConfig" where
  \<comment> \<open>\<^verbatim>\<open>typeof entityConf === 'string' ? { entity: entityConf } : entityConf\<close>\<close>
  "normaliseEntity entityConf =
     (case entityConf of
        EntityId name \<Rightarrow> \<lparr>entity = name, graph_entity = None\<rparr>
      | EntityObject conf \<Rightarrow> conf)"

definition noEntityError :: js_error where
  "noEntityError = Error ''You need to define at least one entity''"

definition setConfig :: "BackgroundGraphEntitiesConfig option \<Rightarrow> card \<Rightarrow> js_error option \<times> card" where
  "setConfig config c =
     (case config of
        None \<Rightarrow> (Some noEntityError, c)
      | Some conf \<Rightarrow>
         (case entities conf of
            Falsy \<Rightarrow> (Some noEntityError, c)
          | NotAnArray \<Rightarrow> (Some noEntityError, c)
          | Array items \<Rightarrow>
              if length items = 0 then (Some noEntityError, c)
              else (None,
                    setupUpdateInterval
                      (c\<lparr>p_config := Some conf,
                         p_entities := map normaliseEntity items,
                         p_historyFetched := False,
                         p_history := []\<rparr>))))"

section \<open>The documented scenarios\<close>

text \<open>
  The clock of the scenarios stands at 2023-01-01T12:00:00Z, that is 1672574400000 ms;
  with \<open>hours = 2\<close> the window starts at 10:00:00Z, 1672567200000 ms, and with
  \<open>pointsPerHour = 2\<close> a bucket is 1800000 ms wide.
\<close>

text \<open>
  Claim C1. With the clock at 12:00:00Z, \<open>hours = 2\<close>, \<open>pointsPerHour = 2\<close> and the
  samples 5 at 10:00, 10 at 10:15, 20 at 10:45, 30 at 11:15 and 40 at 11:45, the function
  returns the anchor (10:00, 5) followed by the buckets (10:30, 7.5), (11:00, 15),
  (11:30, 25) and (12:00, 35): the time-weighted means.
\<close>

theorem C1_weighted_average_scenario:
  "downsampleHistory 1672574400000 1672574400000
     [\<lparr>timestamp = 1672567200000, val = 5\<rparr>,
      \<lparr>timestamp = 1672568100000, val = 10\<rparr>,
      \<lparr>timestamp = 1672569900000, val = 20\<rparr>,
      \<lparr>timestamp = 1672571700000, val = 30\<rparr>,
      \<lparr>timestamp = 1672573500000, val = 40\<rparr>] 2 2
   = [\<lparr>timestamp = 1672567200000, val = 5\<rparr>,
      \<lparr>timestamp = 1672569000000, val = 15 / 2\<rparr>,
      \<lparr>timestamp = 1672570800000, val = 15\<rparr>,
      \<lparr>timestamp = 1672572600000, val = 25\<rparr>,
      \<lparr>timestamp = 1672574400000, val = 35\<rparr>]"
  by code_simp

text \<open>
  Claim C5. Same clock, window and resolution; samples 5 at the window start, 10 at
  10:00:00Z and 1000 at 10:29:00Z. The first bucket is (10 * 29 + 1000 * 1) / 30 = 43,
  and each later bucket is 1000.
\<close>

theorem C5_spike_scenario:
  "downsampleHistory 1672574400000 1672574400000
     [\<lparr>timestamp = 1672567200000, val = 5\<rparr>,
      \<lparr>timestamp = 1672567200000, val = 10\<rparr>,
      \<lparr>timestamp = 1672568940000, val = 1000\<rparr>] 2 2
   = [\<lparr>timestamp = 1672567200000, val = 5\<rparr>,
      \<lparr>timestamp = 1672569000000, val = 43\<rparr>,
      \<lparr>timestamp = 1672570800000, val = 1000\<rparr>,
      \<lparr>timestamp = 1672572600000, val = 1000\<rparr>,
      \<lparr>timestamp = 1672574400000, val = 1000\<rparr>]"
  by code_simp

section \<open>The short circuit\<close>

text \<open>
  Claim C3. For every list of states and every \<open>hours\<close>, the function returns the
  states unchanged whenever \<open>pointsPerHour \<le> 0\<close>, and it returns the empty list for the
  empty list at every resolution.
\<close>

theorem C3_pass_through:
  "(pointsPerHour \<le> 0 \<longrightarrow>
      downsampleHistory endpointNow now states hours pointsPerHour = states)
   \<and> downsampleHistory endpointNow now [] hours pointsPerHour = []"
  by (simp add: downsampleHistory_def)

theorem C3_pass_through_witness:
  "((0::rat) \<le> 0 \<and>
      downsampleHistory 1672574400000 1672574400000
        [\<lparr>timestamp = 1672570800000, val = 10\<rparr>, \<lparr>timestamp = 1672572600000, val = 20\<rparr>] 2 0
      = [\<lparr>timestamp = 1672570800000, val = 10\<rparr>, \<lparr>timestamp = 1672572600000, val = 20\<rparr>])
   \<and> ((-1::rat) \<le> 0 \<and>
      downsampleHistory 1672574400000 1672574400000
        [\<lparr>timestamp = 1672570800000, val = 10\<rparr>, \<lparr>timestamp = 1672572600000, val = 20\<rparr>] 2 (-1)
      = [\<lparr>timestamp = 1672570800000, val = 10\<rparr>, \<lparr>timestamp = 1672572600000, val = 20\<rparr>])
   \<and> downsampleHistory 1672574400000 1672574400000 [] 2 2 = []"
  using C3_pass_through [of 0 1672574400000 1672574400000
      "[\<lparr>timestamp = 1672570800000, val = 10\<rparr>, \<lparr>timestamp = 1672572600000, val = 20\<rparr>]" 2]
    C3_pass_through [of "-1" 1672574400000 1672574400000
      "[\<lparr>timestamp = 1672570800000, val = 10\<rparr>, \<lparr>timestamp = 1672572600000, val = 20\<rparr>]" 2]
    C3_pass_through [of 2 1672574400000 1672574400000 "[]" 2]
  by simp

section \<open>The loop over the buckets, unrolled\<close>








section \<open>The length of the result\<close>










section \<open>The timestamps of the result\<close>







section \<open>Every value of the result lies between the least and the greatest input value\<close>









section \<open>No division by zero and no failing read\<close>






section \<open>Setting the configuration\<close>

lemma setupUpdateInterval_keeps:
  "p_config (setupUpdateInterval c) = p_config c"
  "p_entities (setupUpdateInterval c) = p_entities c"
  "p_historyFetched (setupUpdateInterval c) = p_historyFetched c"
  "p_history (setupUpdateInterval c) = p_history c"
  by (simp_all add: setupUpdateInterval_def Let_def split: option.splits)

text \<open>
  Claim C9. \<^verbatim>\<open>setConfig\<close> throws the error "You need to define at least one entity" for
  a missing configuration and for one whose entities are missing, not an array or an
  empty array, and leaves the card as it was; for a configuration with at least one
  entity it does not throw, and stores the configuration and the normalised entities.
\<close>

theorem C9_setConfig:
  "setConfig None c = (Some (Error ''You need to define at least one entity''), c)
   \<and> (entities conf = Falsy \<or> entities conf = NotAnArray \<or> entities conf = Array [] \<longrightarrow>
        setConfig (Some conf) c = (Some (Error ''You need to define at least one entity''), c))
   \<and> (entities conf = Array (item # items) \<longrightarrow>
        fst (setConfig (Some conf) c) = None
        \<and> p_config (snd (setConfig (Some conf) c)) = Some conf
        \<and> p_entities (snd (setConfig (Some conf) c)) = map normaliseEntity (item # items)
        \<and> p_historyFetched (snd (setConfig (Some conf) c)) = False
        \<and> p_history (snd (setConfig (Some conf) c)) = [])"
  by (auto simp add: setConfig_def noEntityError_def setupUpdateInterval_keeps)

theorem C9_setConfig_witness:
  "setConfig None
     \<lparr>p_config = None, p_entities = [], p_history = [], p_historyFetched = True,
      p_timerId = None, windowIntervals = []\<rparr>
   = (Some (Error ''You need to define at least one entity''),
      \<lparr>p_config = None, p_entities = [], p_history = [], p_historyFetched = True,
       p_timerId = None, windowIntervals = []\<rparr>)
   \<and> entities \<lparr>entities = Array [], update_interval = None, hours_to_show = None,
                points_per_hour = None\<rparr> = Array []
   \<and> setConfig (Some \<lparr>entities = Array [], update_interval = None, hours_to_show = None,
                points_per_hour = None\<rparr>)
     \<lparr>p_config = None, p_entities = [], p_history = [], p_historyFetched = True,
      p_timerId = None, windowIntervals = []\<rparr>
   = (Some (Error ''You need to define at least one entity''),
      \<lparr>p_config = None, p_entities = [], p_history = [], p_historyFetched = True,
       p_timerId = None, windowIntervals = []\<rparr>)
   \<and> entities \<lparr>entities = Array [EntityId ''sensor.test''], update_interval = Some 30,
                hours_to_show = None, points_per_hour = None\<rparr> = Array [EntityId ''sensor.test'']
   \<and> fst (setConfig (Some \<lparr>entities = Array [EntityId ''sensor.test''], update_interval = Some 30,
                hours_to_show = None, points_per_hour = None\<rparr>)
     \<lparr>p_config = None, p_entities = [], p_history = [], p_historyFetched = True,
      p_timerId = None, windowIntervals = []\<rparr>) = None
   \<and> p_entities (snd (setConfig (Some \<lparr>entities = Array [EntityId ''sensor.test''],
                update_interval = Some 30, hours_to_show = None, points_per_hour = None\<rparr>)
     \<lparr>p_config = None, p_entities = [], p_history = [], p_historyFetched = True,
      p_timerId = None, windowIntervals = []\<rparr>))
     = [\<lparr>entity = ''sensor.test'', graph_entity = None\<rparr>]"
  using C9_setConfig [of
      "\<lparr>p_config = None, p_entities = [], p_history = [], p_historyFetched = True,
        p_timerId = None, windowIntervals = []\<rparr>"
      "\<lparr>entities = Array [], update_interval = None, hours_to_show = None,
        points_per_hour = None\<rparr>"]
    C9_setConfig [of
      "\<lparr>p_config = None, p_entities = [], p_history = [], p_historyFetched = True,
        p_timerId = None, windowIntervals = []\<rparr>"
      "\<lparr>entities = Array [EntityId ''sensor.test''], update_interval = Some 30,
        hours_to_show = None, points_per_hour = None\<rparr>" "EntityId ''sensor.test''" "[]"]
  by (simp add: normaliseEntity_def)

section \<open>What a pair of states adds to a bucket\<close>










section \<open>Buckets without overlap\<close>

















end
